theory Spec2Isabelle
  imports Main
begin

section \<open>JavaScript values, errors and console output\<close>

text \<open>
  The backend is glue around three external libraries: the chat provider's SDK
  (\<^verbatim>\<open>streamClient\<close>), the web framework (request, response, routing) and the
  identity provider's middleware. The code of \<^verbatim>\<open>stream.js\<close>,
  \<^verbatim>\<open>chat.controller.js\<close> and \<^verbatim>\<open>server.js\<close> is embedded as it is written;
  what an external call answers is a parameter of the model.

  A thrown JavaScript error is a value of \<open>js_error\<close>; a computation that may throw
  returns \<open>js_error + 'a\<close>, with \<open>Inl\<close> the thrown error.
\<close>

datatype js_error =
    TypeError
  | NetworkError
  | InvalidKey
  | QuotaExceeded
  | HeadersSent
  | OtherError string

text \<open>
  The values an identity argument can be: \<^verbatim>\<open>undefined\<close>, \<^verbatim>\<open>null\<close>, a string,
  or any other value, which is given by what its \<^verbatim>\<open>toString()\<close> method does
  (it throws, or it returns a string).
\<close>

datatype js_value =
    JsUndefined
  | JsNull
  | JsString string
  | JsOther "js_error + string"

text \<open>
  \<^verbatim>\<open>userId.toString()\<close>: reading a property of \<^verbatim>\<open>undefined\<close> or \<^verbatim>\<open>null\<close> throws a
  TypeError; a string is its own string; any other value runs its own method.
\<close>

fun toString :: "js_value \<Rightarrow> js_error + string" where
  "toString JsUndefined = Inl TypeError"
| "toString JsNull = Inl TypeError"
| "toString (JsString s) = Inr s"
| "toString (JsOther r) = r"

datatype json =
    JNull
  | JString string
  | JObject "(string \<times> json) list"

text \<open>
  A line written by \<^verbatim>\<open>console.log\<close> (\<open>Info\<close> with a label and a value,
  \<open>Line\<close> with one string) or by \<^verbatim>\<open>console.error\<close> (\<open>Err\<close>).
\<close>

datatype log_entry =
    Info string js_value
  | Line string
  | Err string js_error

record world =
  console :: "log_entry list"

section \<open>Computations that may throw, over a state\<close>

text \<open>
  A function body is a state transformer that ends with a value or with a thrown error;
  the state reached is kept in both cases, as a \<^verbatim>\<open>catch\<close> block sees every effect
  made before the throw. \<^verbatim>\<open>await\<close> of a call is the call itself: a rejected promise
  is a throw at the \<^verbatim>\<open>await\<close>.
\<close>

type_synonym ('a, 'w) js = "'w \<Rightarrow> (js_error + 'a) \<times> 'w"

definition js_return :: "'a \<Rightarrow> ('a, 'w) js" where
  "js_return x = (\<lambda>w. (Inr x, w))"

definition js_throw :: "js_error \<Rightarrow> ('a, 'w) js" where
  "js_throw e = (\<lambda>w. (Inl e, w))"

definition js_bind :: "('a, 'w) js \<Rightarrow> ('a \<Rightarrow> ('b, 'w) js) \<Rightarrow> ('b, 'w) js" where
  "js_bind m f = (\<lambda>w. case m w of (Inl e, w') \<Rightarrow> (Inl e, w') | (Inr x, w') \<Rightarrow> f x w')"

definition try_catch :: "('a, 'w) js \<Rightarrow> (js_error \<Rightarrow> ('a, 'w) js) \<Rightarrow> ('a, 'w) js" where
  "try_catch m h = (\<lambda>w. case m w of (Inl e, w') \<Rightarrow> h e w' | (Inr x, w') \<Rightarrow> (Inr x, w'))"

definition js_lift :: "js_error + 'a \<Rightarrow> ('a, 'w) js" where
  "js_lift r = (case r of Inl e \<Rightarrow> js_throw e | Inr x \<Rightarrow> js_return x)"

definition console_write :: "log_entry \<Rightarrow> (unit, 'z world_scheme) js" where
  "console_write l = (\<lambda>w. (Inr (), w\<lparr>console := console w @ [l]\<rparr>))"

text \<open>\<^verbatim>\<open>for (const x of xs) { await f(x) }\<close>: one call after the other, stopping at a throw.\<close>

fun for_of :: "'a list \<Rightarrow> ('a \<Rightarrow> (unit, 'w) js) \<Rightarrow> (unit, 'w) js" where
  "for_of [] f = js_return ()"
| "for_of (x # xs) f = js_bind (f x) (\<lambda>_. for_of xs f)"

section \<open>The chat provider client (\<^verbatim>\<open>stream.js\<close>)\<close>

text \<open>
  The profile handed to the upsert: \<^verbatim>\<open>undefined\<close>/\<^verbatim>\<open>null\<close>, or an object with the
  fields \<^verbatim>\<open>id\<close>, \<^verbatim>\<open>name\<close> and \<^verbatim>\<open>image\<close>.
\<close>

datatype user_data =
    NoUserData
  | UserData (user_id: string) (user_name: js_value) (user_image: js_value)

text \<open>\<^verbatim>\<open>userData.name\<close>: a TypeError when there is no object to read from.\<close>

fun name_of :: "user_data \<Rightarrow> js_error + js_value" where
  "name_of NoUserData = Inl TypeError"
| "name_of (UserData i n im) = Inr n"

datatype channel = Channel (cid: string)

type_synonym channel_filter = "(string \<times> bool) list"

text \<open>The calls this program issues to the provider, in the order it issues them.\<close>

datatype provider_call =
    UpsertUser user_data
  | DeleteUser js_value
  | CreateToken string
  | QueryChannels channel_filter
  | AddMembers channel "js_value list"

text \<open>
  What the provider answers is outside this repository. Each operation is given by a
  function of the calls made so far and of its arguments: \<open>Some e\<close> and \<open>Inl e\<close> are
  a failure \<open>e\<close> of the call (thrown, or a rejected promise). The SDK's
  \<^verbatim>\<open>createToken\<close> is synchronous: it returns the signed token string or throws.
\<close>

record provider =
  upsertUser :: "provider_call list \<Rightarrow> user_data \<Rightarrow> js_error option"
  deleteUser :: "provider_call list \<Rightarrow> js_value \<Rightarrow> js_error option"
  createToken :: "provider_call list \<Rightarrow> string \<Rightarrow> js_error + string"
  queryChannels :: "provider_call list \<Rightarrow> channel_filter \<Rightarrow> js_error + channel list"
  addMembers :: "provider_call list \<Rightarrow> channel \<Rightarrow> js_value list \<Rightarrow> js_error option"

text \<open>
  The module's state: the console, the calls issued to the provider, and the client
  object built once when the module is loaded
  (\<^verbatim>\<open>StreamChat.getInstance(ENV.STREAM_API_KEY, ENV.STREAM_API_SECRET)\<close>).
\<close>

record stream_client =
  api_key :: "string option"
  api_secret :: "string option"

record stream_world = world +
  calls :: "provider_call list"
  streamClient :: stream_client

definition issue :: "provider_call \<Rightarrow> js_error + 'a \<Rightarrow> ('a, 'z stream_world_scheme) js" where
  "issue c r = (\<lambda>w. (r, w\<lparr>calls := calls w @ [c]\<rparr>))"

definition failing :: "js_error option \<Rightarrow> js_error + unit" where
  "failing r = (case r of Some e \<Rightarrow> Inl e | None \<Rightarrow> Inr ())"

definition client_upsertUser :: "provider \<Rightarrow> user_data \<Rightarrow> (unit, 'z stream_world_scheme) js" where
  "client_upsertUser P u = (\<lambda>w. issue (UpsertUser u) (failing (upsertUser P (calls w) u)) w)"

definition client_deleteUser :: "provider \<Rightarrow> js_value \<Rightarrow> (unit, 'z stream_world_scheme) js" where
  "client_deleteUser P i = (\<lambda>w. issue (DeleteUser i) (failing (deleteUser P (calls w) i)) w)"

definition client_createToken :: "provider \<Rightarrow> string \<Rightarrow> (string, 'z stream_world_scheme) js" where
  "client_createToken P s = (\<lambda>w. issue (CreateToken s) (createToken P (calls w) s) w)"

definition client_queryChannels ::
  "provider \<Rightarrow> channel_filter \<Rightarrow> (channel list, 'z stream_world_scheme) js" where
  "client_queryChannels P f = (\<lambda>w. issue (QueryChannels f) (queryChannels P (calls w) f) w)"

definition channel_addMembers ::
  "provider \<Rightarrow> channel \<Rightarrow> js_value list \<Rightarrow> (unit, 'z stream_world_scheme) js" where
  "channel_addMembers P c us = (\<lambda>w. issue (AddMembers c us) (failing (addMembers P (calls w) c us)) w)"

text \<open>
  \<^verbatim>\<open>upsertStreamUser\<close>: the result is the profile, or \<^verbatim>\<open>undefined\<close> (\<open>None\<close>) when
  the \<^verbatim>\<open>catch\<close> block ran.
\<close>

definition upsertStreamUser ::
  "provider \<Rightarrow> user_data \<Rightarrow> (user_data option, 'z stream_world_scheme) js" where
  "upsertStreamUser P userData =
     try_catch
       (js_bind (client_upsertUser P userData) (\<lambda>_.
        js_bind (js_lift (name_of userData)) (\<lambda>n.
        js_bind (console_write (Info ''Stream user upserted:'' n)) (\<lambda>_.
        js_return (Some userData)))))
       (\<lambda>error.
        js_bind (console_write (Err ''Error upserting Stream user:'' error)) (\<lambda>_.
        js_return None))"

definition deleteStreamUser :: "provider \<Rightarrow> js_value \<Rightarrow> (unit, 'z stream_world_scheme) js" where
  "deleteStreamUser P userId =
     try_catch
       (js_bind (client_deleteUser P userId) (\<lambda>_.
        console_write (Info ''Stream user deleted:'' userId)))
       (\<lambda>error. console_write (Err ''Error deleting Stream user:'' error))"

text \<open>
  \<^verbatim>\<open>genrateStreamToken\<close>: the result is the provider's token string, or \<^verbatim>\<open>null\<close>
  (\<open>None\<close>) from the \<^verbatim>\<open>catch\<close> block.
\<close>

definition genrateStreamToken ::
  "provider \<Rightarrow> js_value \<Rightarrow> (string option, 'z stream_world_scheme) js" where
  "genrateStreamToken P userId =
     try_catch
       (js_bind (js_lift (toString userId)) (\<lambda>userIdString.
        js_bind (client_createToken P userIdString) (\<lambda>t.
        js_return (Some t))))
       (\<lambda>error.
        js_bind (console_write (Err ''Error generating Stream token:'' error)) (\<lambda>_.
        js_return None))"

definition discoverable :: channel_filter where
  "discoverable = [(''discoverable'', True)]"

definition addUserToPublicChannels ::
  "provider \<Rightarrow> js_value \<Rightarrow> (unit, 'z stream_world_scheme) js" where
  "addUserToPublicChannels P newUserId =
     js_bind (client_queryChannels P discoverable) (\<lambda>publicChannels.
     for_of publicChannels (\<lambda>channel. channel_addMembers P channel [newUserId]))"

text \<open>The add-member calls for a list of channels: one call per channel, one member each.\<close>

definition add_calls :: "js_value \<Rightarrow> channel list \<Rightarrow> provider_call list" where
  "add_calls newUserId chs = map (\<lambda>channel. AddMembers channel [newUserId]) chs"

section \<open>Request and response\<close>

datatype http_method = GET | HEAD | POST | PUT | DELETE

text \<open>
  \<open>auth\<close> is what the identity middleware attached as \<^verbatim>\<open>req.auth\<close>: \<open>None\<close> when
  there is no such function, otherwise what \<^verbatim>\<open>req.auth()\<close> does: it throws, or it
  returns an object whose \<^verbatim>\<open>userId\<close> is the given value.
\<close>

record request =
  req_method :: http_method
  path :: string
  body :: "json option"
  auth :: "(js_error + js_value) option"

datatype payload = Json json | Text string

text \<open>
  The framework's response object: the status code, what was sent, and whether the
  headers have gone out. Sending a body twice throws.
\<close>

record response =
  statusCode :: nat
  sent :: "payload option"
  headersSent :: bool

definition fresh_response :: response where
  "fresh_response = \<lparr>statusCode = 200, sent = None, headersSent = False\<rparr>"

definition status :: "nat \<Rightarrow> response \<Rightarrow> js_error + response" where
  "status code r = Inr (r\<lparr>statusCode := code\<rparr>)"

definition send_payload :: "payload \<Rightarrow> response \<Rightarrow> js_error + response" where
  "send_payload p r =
     (if headersSent r then Inl HeadersSent
      else Inr (r\<lparr>sent := Some p, headersSent := True\<rparr>))"

definition json :: "json \<Rightarrow> response \<Rightarrow> js_error + response" where
  "json j r = send_payload (Json j) r"


record handler_world = stream_world +
  res :: response

definition on_res ::
  "(response \<Rightarrow> js_error + response) \<Rightarrow> (unit, 'z handler_world_scheme) js" where
  "on_res f = (\<lambda>w. case f (res w) of Inl e \<Rightarrow> (Inl e, w) | Inr r \<Rightarrow> (Inr (), w\<lparr>res := r\<rparr>))"

section \<open>The token endpoint (\<^verbatim>\<open>chat.controller.js\<close>)\<close>

text \<open>\<^verbatim>\<open>req.auth().userId\<close>.\<close>

definition auth_userId :: "request \<Rightarrow> js_error + js_value" where
  "auth_userId req = (case auth req of None \<Rightarrow> Inl TypeError | Some r \<Rightarrow> r)"

text \<open>\<^verbatim>\<open>{token}\<close> as the framework serialises it: a string, or \<^verbatim>\<open>null\<close>.\<close>

definition token_body :: "string option \<Rightarrow> json" where
  "token_body token =
     JObject [(''token'', case token of None \<Rightarrow> JNull | Some t \<Rightarrow> JString t)]"

definition error_body :: json where
  "error_body = JObject [(''message'', JString ''Error generating stream token'')]"

text \<open>The \<^verbatim>\<open>try\<close> block of \<^verbatim>\<open>getStreamToken\<close>, and the handler with its \<^verbatim>\<open>catch\<close>.\<close>

definition getStreamToken_try :: "provider \<Rightarrow> request \<Rightarrow> (unit, 'z handler_world_scheme) js" where
  "getStreamToken_try P req =
     js_bind (js_lift (auth_userId req)) (\<lambda>userId.
     js_bind (genrateStreamToken P userId) (\<lambda>token.
     js_bind (on_res (status 200)) (\<lambda>_.
     on_res (json (token_body token)))))"

definition getStreamToken :: "provider \<Rightarrow> request \<Rightarrow> (unit, 'z handler_world_scheme) js" where
  "getStreamToken P req =
     try_catch (getStreamToken_try P req)
       (\<lambda>error.
        js_bind (on_res (status 500)) (\<lambda>_.
        on_res (json error_body)))"

section \<open>The application and its start (\<^verbatim>\<open>server.js\<close>)\<close>







text \<open>
  \<^verbatim>\<open>ENV\<close> (\<^verbatim>\<open>config/env.js\<close>): the environment variables the start reads;
  \<open>None\<close> is an unset variable.
\<close>

record env =
  NODE_ENV :: "string option"
  PORT :: "string option"

text \<open>What the start does to the outside, in order.\<close>

datatype server_effect =
    ConnectDB
  | Listen "string option"
  | Exit nat

record server_world = world +
  effects :: "server_effect list"

text \<open>
  Whether \<^verbatim>\<open>connectDB()\<close> (\<^verbatim>\<open>config/db.js\<close>) rejects and whether
  \<^verbatim>\<open>app.listen(port)\<close> throws are given from outside.
\<close>

record runtime =
  connectDB :: "js_error option"
  listen :: "string option \<Rightarrow> js_error option"

definition perform :: "server_effect \<Rightarrow> js_error + 'a \<Rightarrow> ('a, 'z server_world_scheme) js" where
  "perform x r = (\<lambda>w. (r, w\<lparr>effects := effects w @ [x]\<rparr>))"

definition port_text :: "string option \<Rightarrow> string" where
  "port_text p = (case p of None \<Rightarrow> ''undefined'' | Some s \<Rightarrow> s)"

definition app_listen :: "runtime \<Rightarrow> string option \<Rightarrow> (unit, 'z server_world_scheme) js" where
  "app_listen R p =
     js_bind (perform (Listen p) (failing (listen R p))) (\<lambda>_.
     console_write (Line (''Server is running on port http://localhost:'' @ port_text p)))"

definition startServer :: "env \<Rightarrow> runtime \<Rightarrow> (unit, 'z server_world_scheme) js" where
  "startServer E R =
     try_catch
       (if NODE_ENV E \<noteq> Some ''production''
        then js_bind (perform ConnectDB (failing (connectDB R))) (\<lambda>_. app_listen R (PORT E))
        else js_return ())
       (\<lambda>error.
        js_bind (console_write (Err ''Error starting server:'' error)) (\<lambda>_.
        perform (Exit 1) (Inr ())))"

section \<open>Example environments\<close>

definition reliable_provider :: provider where
  "reliable_provider =
     \<lparr>upsertUser = (\<lambda>h u. None),
      deleteUser = (\<lambda>h i. None),
      createToken = (\<lambda>h s. Inr (''tok_'' @ s)),
      queryChannels = (\<lambda>h f. Inr [Channel ''general'', Channel ''random'']),
      addMembers = (\<lambda>h c us. None)\<rparr>"

definition unreachable_provider :: provider where
  "unreachable_provider =
     \<lparr>upsertUser = (\<lambda>h u. Some NetworkError),
      deleteUser = (\<lambda>h i. Some NetworkError),
      createToken = (\<lambda>h s. Inl InvalidKey),
      queryChannels = (\<lambda>h f. Inl NetworkError),
      addMembers = (\<lambda>h c us. Some NetworkError)\<rparr>"

definition general_full_provider :: provider where
  "general_full_provider =
     \<lparr>upsertUser = (\<lambda>h u. None),
      deleteUser = (\<lambda>h i. None),
      createToken = (\<lambda>h s. Inr (''tok_'' @ s)),
      queryChannels = (\<lambda>h f. Inr [Channel ''general'', Channel ''random'']),
      addMembers = (\<lambda>h c us. if c = Channel ''general'' then Some QuotaExceeded else None)\<rparr>"

definition idle_world :: stream_world where
  "idle_world =
     \<lparr>console = [], calls = [],
      streamClient = \<lparr>api_key = Some ''key'', api_secret = Some ''secret''\<rparr>\<rparr>"

definition idle_handler_world :: handler_world where
  "idle_handler_world =
     \<lparr>console = [], calls = [],
      streamClient = \<lparr>api_key = Some ''key'', api_secret = Some ''secret''\<rparr>,
      res = fresh_response\<rparr>"

definition user_123_request :: request where
  "user_123_request =
     \<lparr>req_method = GET, path = ''/api/chat/token'', body = None,
      auth = Some (Inr (JsString ''user_123''))\<rparr>"

definition bare_request :: request where
  "bare_request = \<lparr>req_method = GET, path = ''/'', body = None, auth = None\<rparr>"



definition production_env :: env where
  "production_env = \<lparr>NODE_ENV = Some ''production'', PORT = Some ''5001''\<rparr>"

definition development_env :: env where
  "development_env = \<lparr>NODE_ENV = Some ''development'', PORT = Some ''5001''\<rparr>"

definition healthy_runtime :: runtime where
  "healthy_runtime = \<lparr>connectDB = None, listen = (\<lambda>p. None)\<rparr>"

definition idle_server_world :: server_world where
  "idle_server_world = \<lparr>console = [], effects = []\<rparr>"

section \<open>Evaluation rules\<close>

lemmas js_defs = js_return_def js_throw_def js_bind_def try_catch_def js_lift_def
  console_write_def issue_def failing_def

lemmas token_defs = getStreamToken_def getStreamToken_try_def genrateStreamToken_def
  client_createToken_def on_res_def status_def json_def send_payload_def token_body_def
  error_body_def

subsection \<open>The lifecycle functions\<close>

lemma upsert_returns: "\<exists>v. fst (upsertStreamUser P u w) = Inr v"
  by (auto simp add: upsertStreamUser_def client_upsertUser_def js_defs
      split: sum.splits option.splits)

lemma delete_returns: "fst (deleteStreamUser P i w) = Inr ()"
  by (auto simp add: deleteStreamUser_def client_deleteUser_def js_defs
      split: sum.splits option.splits)

lemma upsert_failure_logged:
  "upsertUser P (calls w) u = Some e \<Longrightarrow>
   upsertStreamUser P u w =
     (Inr None, w\<lparr>calls := calls w @ [UpsertUser u],
                  console := console w @ [Err ''Error upserting Stream user:'' e]\<rparr>)"
  by (simp add: upsertStreamUser_def client_upsertUser_def js_defs)

lemma delete_failure_logged:
  "deleteUser P (calls w) i = Some e \<Longrightarrow>
   deleteStreamUser P i w =
     (Inr (), w\<lparr>calls := calls w @ [DeleteUser i],
                console := console w @ [Err ''Error deleting Stream user:'' e]\<rparr>)"
  by (simp add: deleteStreamUser_def client_deleteUser_def js_defs)

lemma upsert_name_failure_logged:
  "upsertUser P (calls w) u = None \<Longrightarrow> name_of u = Inl e \<Longrightarrow>
   upsertStreamUser P u w =
     (Inr None, w\<lparr>calls := calls w @ [UpsertUser u],
                  console := console w @ [Err ''Error upserting Stream user:'' e]\<rparr>)"
  by (simp add: upsertStreamUser_def client_upsertUser_def js_defs)

subsection \<open>The enrollment loop\<close>

lemma add_step_ok:
  "addMembers P (calls w) c [n] = None \<Longrightarrow>
   channel_addMembers P c [n] w = (Inr (), w\<lparr>calls := calls w @ [AddMembers c [n]]\<rparr>)"
  by (simp add: channel_addMembers_def js_defs)

lemma add_step_fail:
  "addMembers P (calls w) c [n] = Some e \<Longrightarrow>
   channel_addMembers P c [n] w = (Inl e, w\<lparr>calls := calls w @ [AddMembers c [n]]\<rparr>)"
  by (simp add: channel_addMembers_def js_defs)

lemma for_of_all_ok:
  fixes w :: "'z stream_world_scheme"
  assumes "\<forall>i<length chs. addMembers P (calls w @ add_calls n (take i chs)) (chs ! i) [n] = None"
  shows "for_of chs (\<lambda>c. channel_addMembers P c [n]) w =
           (Inr (), w\<lparr>calls := calls w @ add_calls n chs\<rparr>)"
  using assms
proof (induction chs arbitrary: w)
  case Nil
  then show ?case by (simp add: js_return_def add_calls_def)
next
  case (Cons c cs)
  let ?w1 = "w\<lparr>calls := calls w @ [AddMembers c [n]]\<rparr>"
  from Cons.prems have first: "addMembers P (calls w) c [n] = None"
    by (auto simp add: add_calls_def dest: spec [where x = 0])
  have rest: "\<forall>i<length cs. addMembers P (calls ?w1 @ add_calls n (take i cs)) (cs ! i) [n] = None"
  proof (intro allI impI)
    fix i assume "i < length cs"
    with Cons.prems
    have "addMembers P (calls w @ add_calls n (take (Suc i) (c # cs))) ((c # cs) ! Suc i) [n] = None"
      by (metis Suc_less_eq length_Cons)
    then show "addMembers P (calls ?w1 @ add_calls n (take i cs)) (cs ! i) [n] = None"
      by (simp add: add_calls_def)
  qed
  from Cons.IH [OF rest] first show ?case
    by (simp add: js_bind_def add_step_ok add_calls_def)
qed

lemma for_of_first_failure:
  fixes w :: "'z stream_world_scheme"
  assumes "j < length chs"
    and "\<forall>i<j. addMembers P (calls w @ add_calls n (take i chs)) (chs ! i) [n] = None"
    and "addMembers P (calls w @ add_calls n (take j chs)) (chs ! j) [n] = Some e"
  shows "for_of chs (\<lambda>c. channel_addMembers P c [n]) w =
           (Inl e, w\<lparr>calls := calls w @ add_calls n (take (Suc j) chs)\<rparr>)"
  using assms
proof (induction chs arbitrary: w j)
  case Nil
  then show ?case by simp
next
  case (Cons c cs)
  let ?w1 = "w\<lparr>calls := calls w @ [AddMembers c [n]]\<rparr>"
  show ?case
  proof (cases j)
    case 0
    with Cons.prems have "addMembers P (calls w) c [n] = Some e"
      by (simp add: add_calls_def)
    with 0 show ?thesis
      by (simp add: js_bind_def add_step_fail add_calls_def)
  next
    case (Suc k)
    with Cons.prems have first: "addMembers P (calls w) c [n] = None"
      by (auto simp add: add_calls_def dest: spec [where x = 0])
    from Suc Cons.prems have k: "k < length cs" by simp
    have rest: "\<forall>i<k. addMembers P (calls ?w1 @ add_calls n (take i cs)) (cs ! i) [n] = None"
    proof (intro allI impI)
      fix i assume "i < k"
      with Suc Cons.prems
      have "addMembers P (calls w @ add_calls n (take (Suc i) (c # cs))) ((c # cs) ! Suc i) [n] = None"
        by (metis Suc_less_eq)
      then show "addMembers P (calls ?w1 @ add_calls n (take i cs)) (cs ! i) [n] = None"
        by (simp add: add_calls_def)
    qed
    from Suc Cons.prems
    have last: "addMembers P (calls ?w1 @ add_calls n (take k cs)) (cs ! k) [n] = Some e"
      by (simp add: add_calls_def)
    from Cons.IH [OF k rest last] first Suc show ?thesis
      by (simp add: js_bind_def add_step_ok add_calls_def)
  qed
qed

lemma query_ok:
  "queryChannels P (calls w) f = Inr chs \<Longrightarrow>
   client_queryChannels P f w = (Inr chs, w\<lparr>calls := calls w @ [QueryChannels f]\<rparr>)"
  by (simp add: client_queryChannels_def js_defs)

lemma enrollment_query_failure:
  "queryChannels P (calls w) discoverable = Inl e \<Longrightarrow>
   addUserToPublicChannels P n w =
     (Inl e, w\<lparr>calls := calls w @ [QueryChannels discoverable]\<rparr>)"
  by (simp add: addUserToPublicChannels_def client_queryChannels_def js_defs)

lemma enrollment_all_ok:
  fixes w :: "'z stream_world_scheme"
  assumes q: "queryChannels P (calls w) discoverable = Inr chs"
    and ok: "\<forall>i<length chs.
               addMembers P (calls w @ QueryChannels discoverable # add_calls n (take i chs))
                 (chs ! i) [n] = None"
  shows "addUserToPublicChannels P n w =
           (Inr (), w\<lparr>calls := calls w @ QueryChannels discoverable # add_calls n chs\<rparr>)"
proof -
  let ?w1 = "w\<lparr>calls := calls w @ [QueryChannels discoverable]\<rparr>"
  from ok
  have "\<forall>i<length chs. addMembers P (calls ?w1 @ add_calls n (take i chs)) (chs ! i) [n] = None"
    by simp
  from for_of_all_ok [OF this] q show ?thesis
    by (simp add: addUserToPublicChannels_def js_bind_def query_ok)
qed

lemma enrollment_first_failure:
  fixes w :: "'z stream_world_scheme"
  assumes q: "queryChannels P (calls w) discoverable = Inr chs"
    and j: "j < length chs"
    and ok: "\<forall>i<j. addMembers P (calls w @ QueryChannels discoverable # add_calls n (take i chs))
                      (chs ! i) [n] = None"
    and bad: "addMembers P (calls w @ QueryChannels discoverable # add_calls n (take j chs))
                (chs ! j) [n] = Some e"
  shows "addUserToPublicChannels P n w =
           (Inl e, w\<lparr>calls := calls w @ QueryChannels discoverable # add_calls n (take (Suc j) chs)\<rparr>)"
proof -
  let ?w1 = "w\<lparr>calls := calls w @ [QueryChannels discoverable]\<rparr>"
  from ok
  have a: "\<forall>i<j. addMembers P (calls ?w1 @ add_calls n (take i chs)) (chs ! i) [n] = None"
    by simp
  from bad
  have b: "addMembers P (calls ?w1 @ add_calls n (take j chs)) (chs ! j) [n] = Some e"
    by simp
  from for_of_first_failure [OF j a b] q show ?thesis
    by (simp add: addUserToPublicChannels_def js_bind_def query_ok)
qed

section \<open>The token endpoint\<close>

text \<open>
  Claim C1. The spec: whenever the provider's token-creation call throws, the token
  endpoint answers with status 500 and the body
  \<^verbatim>\<open>{"message":"Error generating stream token"}\<close>.

  The code does not: \<^verbatim>\<open>genrateStreamToken\<close> catches the provider's error and returns
  \<^verbatim>\<open>null\<close>, and the handler sends what it got without looking at it. For the caller
  \<^verbatim>\<open>user_123\<close> and a provider whose \<^verbatim>\<open>createToken\<close> throws, the handler
  returns normally, the error is on the console, and the response is status 200 with the
  body \<^verbatim>\<open>{"token":null}\<close>.
\<close>

theorem getStreamToken_provider_throw_answers_200:
  "getStreamToken unreachable_provider user_123_request idle_handler_world =
     (Inr (), idle_handler_world
        \<lparr>console := [Err ''Error generating Stream token:'' InvalidKey],
         calls := [CreateToken ''user_123''],
         res := \<lparr>statusCode = 200, sent = Some (Json (JObject [(''token'', JNull)])),
                 headersSent = True\<rparr>\<rparr>)"
  by (simp add: token_defs js_defs auth_userId_def unreachable_provider_def
      user_123_request_def idle_handler_world_def fresh_response_def)

text \<open>
  Claim C2. For every identity, when its \<^verbatim>\<open>toString()\<close> throws, or when it gives a
  string and the provider's \<^verbatim>\<open>createToken\<close> throws on that string,
  \<^verbatim>\<open>genrateStreamToken\<close> returns \<^verbatim>\<open>null\<close> (\<open>Inr None\<close>: a normal return, no
  error reaches the caller), after writing the error to the console.
\<close>

theorem genrateStreamToken_null_on_failure:
  assumes "toString userId = Inl e \<or>
           (toString userId = Inr s \<and> createToken P (calls w) s = Inl e)"
  shows "fst (genrateStreamToken P userId w) = Inr None \<and>
         console (snd (genrateStreamToken P userId w)) =
           console w @ [Err ''Error generating Stream token:'' e]"
  using assms
  by (auto simp add: genrateStreamToken_def client_createToken_def js_defs)

theorem genrateStreamToken_null_on_failure_witness:
  "fst (genrateStreamToken reliable_provider JsNull idle_world) = Inr None \<and>
   console (snd (genrateStreamToken reliable_provider JsNull idle_world)) =
     [Err ''Error generating Stream token:'' TypeError] \<and>
   fst (genrateStreamToken unreachable_provider (JsString ''user_123'') idle_world) = Inr None \<and>
   console (snd (genrateStreamToken unreachable_provider (JsString ''user_123'') idle_world)) =
     [Err ''Error generating Stream token:'' InvalidKey]"
proof -
  have a: "toString JsNull = Inl TypeError \<or>
           (toString JsNull = Inr [] \<and>
            createToken reliable_provider (calls idle_world) [] = Inl TypeError)"
    by simp
  have b: "toString (JsString ''user_123'') = Inl InvalidKey \<or>
           (toString (JsString ''user_123'') = Inr ''user_123'' \<and>
            createToken unreachable_provider (calls idle_world) ''user_123'' = Inl InvalidKey)"
    by (simp add: unreachable_provider_def)
  from genrateStreamToken_null_on_failure [OF a] genrateStreamToken_null_on_failure [OF b]
  show ?thesis by (simp add: idle_world_def)
qed

text \<open>
  Claim C3. For every request whose \<^verbatim>\<open>req.auth().userId\<close> is an identity that can
  be made a string \<open>s\<close> (an authenticated caller's identifier is a string, and then
  \<open>s\<close> is that string), when the provider's \<^verbatim>\<open>createToken\<close> returns the token
  \<open>t\<close> for \<open>s\<close> and the response has not been sent yet, the handler returns
  normally and the response is status 200 with the JSON body \<^verbatim>\<open>{"token": t}\<close>.
\<close>

theorem getStreamToken_success:
  assumes "auth_userId req = Inr userId"
    and "toString userId = Inr s"
    and "createToken P (calls w) s = Inr t"
    and "\<not> headersSent (res w)"
  shows "fst (getStreamToken P req w) = Inr () \<and>
         res (snd (getStreamToken P req w)) =
           \<lparr>statusCode = 200, sent = Some (Json (JObject [(''token'', JString t)])),
            headersSent = True\<rparr>"
  using assms by (simp add: token_defs js_defs)

theorem getStreamToken_success_witness:
  "fst (getStreamToken reliable_provider user_123_request idle_handler_world) = Inr () \<and>
   res (snd (getStreamToken reliable_provider user_123_request idle_handler_world)) =
     \<lparr>statusCode = 200, sent = Some (Json (JObject [(''token'', JString ''tok_user_123'')])),
      headersSent = True\<rparr>"
proof -
  have a: "auth_userId user_123_request = Inr (JsString ''user_123'')"
    by (simp add: auth_userId_def user_123_request_def)
  have b: "toString (JsString ''user_123'') = Inr ''user_123''"
    by simp
  have c: "createToken reliable_provider (calls idle_handler_world) ''user_123'' =
             Inr ''tok_user_123''"
    by (simp add: reliable_provider_def)
  have d: "\<not> headersSent (res idle_handler_world)"
    by (simp add: idle_handler_world_def fresh_response_def)
  from getStreamToken_success [OF a b c d] show ?thesis .
qed

text \<open>
  Claim C4. For every request whose identity extraction succeeds and gives a value with
  the string \<open>s\<close>, when the provider's \<^verbatim>\<open>createToken\<close> throws on \<open>s\<close> (and the
  response has not been sent yet), the handler returns normally and the response is
  status 200 with the body \<^verbatim>\<open>{"token": null}\<close>. And the \<^verbatim>\<open>catch\<close> block of the
  handler (the 500 answer) runs only when the \<^verbatim>\<open>try\<close> block throws, which happens
  only when the identity extraction throws or when sending the response throws.
\<close>

theorem getStreamToken_provider_error_is_not_500:
  fixes w :: "'z handler_world_scheme"
  shows "(auth_userId req = Inr userId \<and> toString userId = Inr s \<and>
          createToken P (calls w) s = Inl e \<and> \<not> headersSent (res w) \<longrightarrow>
            fst (getStreamToken P req w) = Inr () \<and>
            res (snd (getStreamToken P req w)) =
              \<lparr>statusCode = 200, sent = Some (Json (JObject [(''token'', JNull)])),
               headersSent = True\<rparr>) \<and>
         (fst (getStreamToken_try P req w) = Inl e' \<longrightarrow>
            auth_userId req = Inl e' \<or> (headersSent (res w) \<and> e' = HeadersSent))"
proof (intro conjI impI)
  assume "auth_userId req = Inr userId \<and> toString userId = Inr s \<and>
          createToken P (calls w) s = Inl e \<and> \<not> headersSent (res w)"
  then show "fst (getStreamToken P req w) = Inr ()"
    by (simp add: token_defs js_defs)
next
  assume "auth_userId req = Inr userId \<and> toString userId = Inr s \<and>
          createToken P (calls w) s = Inl e \<and> \<not> headersSent (res w)"
  then show "res (snd (getStreamToken P req w)) =
              \<lparr>statusCode = 200, sent = Some (Json (JObject [(''token'', JNull)])),
               headersSent = True\<rparr>"
    by (simp add: token_defs js_defs)
next
  assume "fst (getStreamToken_try P req w) = Inl e'"
  then show "auth_userId req = Inl e' \<or> (headersSent (res w) \<and> e' = HeadersSent)"
    by (auto simp add: token_defs js_defs split: sum.splits if_splits)
qed

theorem getStreamToken_provider_error_is_not_500_witness:
  "fst (getStreamToken unreachable_provider user_123_request idle_handler_world) = Inr () \<and>
   res (snd (getStreamToken unreachable_provider user_123_request idle_handler_world)) =
     \<lparr>statusCode = 200, sent = Some (Json (JObject [(''token'', JNull)])),
      headersSent = True\<rparr> \<and>
   fst (getStreamToken_try unreachable_provider bare_request idle_handler_world) = Inl TypeError \<and>
   auth_userId bare_request = Inl TypeError"
proof -
  have a: "auth_userId user_123_request = Inr (JsString ''user_123'') \<and>
           toString (JsString ''user_123'') = Inr ''user_123'' \<and>
           createToken unreachable_provider (calls idle_handler_world) ''user_123'' =
             Inl InvalidKey \<and>
           \<not> headersSent (res idle_handler_world)"
    by (simp add: auth_userId_def user_123_request_def unreachable_provider_def
        idle_handler_world_def fresh_response_def)
  have b: "fst (getStreamToken_try unreachable_provider bare_request idle_handler_world) =
             Inl TypeError"
    by (simp add: getStreamToken_try_def js_defs auth_userId_def bare_request_def)
  have c: "\<not> headersSent (res idle_handler_world)"
    by (simp add: idle_handler_world_def fresh_response_def)
  from getStreamToken_provider_error_is_not_500
         [of user_123_request "JsString ''user_123''" "''user_123''" unreachable_provider
             idle_handler_world InvalidKey TypeError]
       getStreamToken_provider_error_is_not_500
         [of bare_request "JsString ''user_123''" "''user_123''" unreachable_provider
             idle_handler_world InvalidKey TypeError]
       a b c
  show ?thesis by blast
qed

section \<open>The lifecycle functions and the channel enrollment\<close>

text \<open>
  Claim C5, as the spec has it: every lifecycle function, the channel enrollment
  \<^verbatim>\<open>addUserToPublicChannels\<close> included, swallows every error of a provider call
  after logging it. That fails for the enrollment, which has no \<^verbatim>\<open>try\<close>: when the
  channel query fails, the error reaches the caller.
\<close>

theorem addUserToPublicChannels_throws_counterexample:
  "fst (addUserToPublicChannels unreachable_provider (JsString ''user_123'') idle_world) =
     Inl NetworkError"
  by (simp add: addUserToPublicChannels_def client_queryChannels_def js_defs
      unreachable_provider_def idle_world_def)

text \<open>
  Claim C5, amended: \<^verbatim>\<open>upsertStreamUser\<close> and \<^verbatim>\<open>deleteStreamUser\<close> swallow every
  error after logging it: they return normally for every input and every answer of the
  provider, and on each path into their \<^verbatim>\<open>catch\<close> block (the provider call fails,
  or the upsert succeeds and reading \<^verbatim>\<open>userData.name\<close> throws) the state reached is
  the one with the call recorded and exactly one \<^verbatim>\<open>console.error\<close> line carrying
  that error. \<^verbatim>\<open>addUserToPublicChannels\<close> has no handler: a failure of the channel
  query, and the first failure of an add-member call, is thrown to the caller, and
  nothing is written to the console.
\<close>

theorem lifecycle_sync_error_policy:
  fixes w :: "'z stream_world_scheme"
  shows "(\<exists>v. fst (upsertStreamUser P userData w) = Inr v) \<and>
         fst (deleteStreamUser P userId w) = Inr () \<and>
         (upsertUser P (calls w) userData = Some eu \<longrightarrow>
            upsertStreamUser P userData w =
              (Inr None, w\<lparr>calls := calls w @ [UpsertUser userData],
                           console := console w @ [Err ''Error upserting Stream user:'' eu]\<rparr>)) \<and>
         (upsertUser P (calls w) userData = None \<and> name_of userData = Inl en \<longrightarrow>
            upsertStreamUser P userData w =
              (Inr None, w\<lparr>calls := calls w @ [UpsertUser userData],
                           console := console w @ [Err ''Error upserting Stream user:'' en]\<rparr>)) \<and>
         (deleteUser P (calls w) userId = Some ed \<longrightarrow>
            deleteStreamUser P userId w =
              (Inr (), w\<lparr>calls := calls w @ [DeleteUser userId],
                         console := console w @ [Err ''Error deleting Stream user:'' ed]\<rparr>)) \<and>
         (queryChannels P (calls w) discoverable = Inl e \<longrightarrow>
            fst (addUserToPublicChannels P newUserId w) = Inl e \<and>
            console (snd (addUserToPublicChannels P newUserId w)) = console w) \<and>
         (queryChannels P (calls w) discoverable = Inr chs \<and> j < length chs \<and>
          (\<forall>i<j. addMembers P
                    (calls w @ QueryChannels discoverable # add_calls newUserId (take i chs))
                    (chs ! i) [newUserId] = None) \<and>
          addMembers P (calls w @ QueryChannels discoverable # add_calls newUserId (take j chs))
            (chs ! j) [newUserId] = Some e \<longrightarrow>
            fst (addUserToPublicChannels P newUserId w) = Inl e \<and>
            console (snd (addUserToPublicChannels P newUserId w)) = console w)"
proof (intro conjI impI)
  show "\<exists>v. fst (upsertStreamUser P userData w) = Inr v"
    by (rule upsert_returns)
  show "fst (deleteStreamUser P userId w) = Inr ()"
    by (rule delete_returns)
next
  assume "upsertUser P (calls w) userData = Some eu"
  then show "upsertStreamUser P userData w =
      (Inr None, w\<lparr>calls := calls w @ [UpsertUser userData],
                   console := console w @ [Err ''Error upserting Stream user:'' eu]\<rparr>)"
    by (rule upsert_failure_logged)
next
  assume "upsertUser P (calls w) userData = None \<and> name_of userData = Inl en"
  then show "upsertStreamUser P userData w =
      (Inr None, w\<lparr>calls := calls w @ [UpsertUser userData],
                   console := console w @ [Err ''Error upserting Stream user:'' en]\<rparr>)"
    by (intro upsert_name_failure_logged) simp_all
next
  assume "deleteUser P (calls w) userId = Some ed"
  then show "deleteStreamUser P userId w =
      (Inr (), w\<lparr>calls := calls w @ [DeleteUser userId],
                 console := console w @ [Err ''Error deleting Stream user:'' ed]\<rparr>)"
    by (rule delete_failure_logged)
next
  assume q: "queryChannels P (calls w) discoverable = Inl e"
  show "fst (addUserToPublicChannels P newUserId w) = Inl e"
    by (simp add: enrollment_query_failure [OF q])
  show "console (snd (addUserToPublicChannels P newUserId w)) = console w"
    by (simp add: enrollment_query_failure [OF q])
next
  assume h: "queryChannels P (calls w) discoverable = Inr chs \<and> j < length chs \<and>
          (\<forall>i<j. addMembers P
                    (calls w @ QueryChannels discoverable # add_calls newUserId (take i chs))
                    (chs ! i) [newUserId] = None) \<and>
          addMembers P (calls w @ QueryChannels discoverable # add_calls newUserId (take j chs))
            (chs ! j) [newUserId] = Some e"
  then have r: "addUserToPublicChannels P newUserId w =
      (Inl e, w\<lparr>calls := calls w @ QueryChannels discoverable #
                               add_calls newUserId (take (Suc j) chs)\<rparr>)"
    by (intro enrollment_first_failure) simp_all
  show "fst (addUserToPublicChannels P newUserId w) = Inl e"
    by (simp add: r)
  show "console (snd (addUserToPublicChannels P newUserId w)) = console w"
    by (simp add: r)
qed

theorem lifecycle_sync_error_policy_witness:
  "fst (upsertStreamUser unreachable_provider NoUserData idle_world) = Inr None \<and>
   console (snd (upsertStreamUser unreachable_provider NoUserData idle_world)) =
     [Err ''Error upserting Stream user:'' NetworkError] \<and>
   fst (upsertStreamUser reliable_provider NoUserData idle_world) = Inr None \<and>
   console (snd (upsertStreamUser reliable_provider NoUserData idle_world)) =
     [Err ''Error upserting Stream user:'' TypeError] \<and>
   fst (deleteStreamUser unreachable_provider (JsString ''user_123'') idle_world) = Inr () \<and>
   console (snd (deleteStreamUser unreachable_provider (JsString ''user_123'') idle_world)) =
     [Err ''Error deleting Stream user:'' NetworkError] \<and>
   queryChannels unreachable_provider (calls idle_world) discoverable = Inl NetworkError \<and>
   console (snd (addUserToPublicChannels unreachable_provider (JsString ''user_123'')
      idle_world)) = console idle_world \<and>
   queryChannels general_full_provider (calls idle_world) discoverable =
     Inr [Channel ''general'', Channel ''random''] \<and>
   fst (addUserToPublicChannels general_full_provider (JsString ''user_123'') idle_world) =
     Inl QuotaExceeded"
proof -
  have a: "queryChannels unreachable_provider (calls idle_world) discoverable = Inl NetworkError"
    by (simp add: unreachable_provider_def)
  have b: "queryChannels general_full_provider (calls idle_world) discoverable =
             Inr [Channel ''general'', Channel ''random'']"
    by (simp add: general_full_provider_def)
  have c: "addMembers general_full_provider
             (calls idle_world @ QueryChannels discoverable #
                add_calls (JsString ''user_123'') (take 0 [Channel ''general'', Channel ''random'']))
             ([Channel ''general'', Channel ''random''] ! 0) [JsString ''user_123''] =
           Some QuotaExceeded"
    by (simp add: general_full_provider_def)
  have u1: "upsertUser unreachable_provider (calls idle_world) NoUserData = Some NetworkError"
    by (simp add: unreachable_provider_def)
  have u2: "upsertUser reliable_provider (calls idle_world) NoUserData = None \<and>
            name_of NoUserData = Inl TypeError"
    by (simp add: reliable_provider_def)
  have d: "deleteUser unreachable_provider (calls idle_world) (JsString ''user_123'') =
             Some NetworkError"
    by (simp add: unreachable_provider_def)
  have k: "console idle_world = []"
    by (simp add: idle_world_def)
  from lifecycle_sync_error_policy
         [where P = unreachable_provider and userData = NoUserData and w = idle_world
            and userId = "JsString ''user_123''" and eu = NetworkError and ed = NetworkError
            and e = NetworkError and newUserId = "JsString ''user_123''"]
       a u1 d k
  have first: "fst (upsertStreamUser unreachable_provider NoUserData idle_world) = Inr None \<and>
               console (snd (upsertStreamUser unreachable_provider NoUserData idle_world)) =
                 [Err ''Error upserting Stream user:'' NetworkError] \<and>
               fst (deleteStreamUser unreachable_provider (JsString ''user_123'') idle_world) =
                 Inr () \<and>
               console (snd (deleteStreamUser unreachable_provider (JsString ''user_123'')
                 idle_world)) = [Err ''Error deleting Stream user:'' NetworkError] \<and>
               console (snd (addUserToPublicChannels unreachable_provider
                 (JsString ''user_123'') idle_world)) = console idle_world"
    by simp
  from lifecycle_sync_error_policy
         [where P = reliable_provider and userData = NoUserData and w = idle_world
            and en = TypeError]
       u2 k
  have second: "fst (upsertStreamUser reliable_provider NoUserData idle_world) = Inr None \<and>
                console (snd (upsertStreamUser reliable_provider NoUserData idle_world)) =
                  [Err ''Error upserting Stream user:'' TypeError]"
    by simp
  from lifecycle_sync_error_policy
         [where P = general_full_provider and w = idle_world and e = QuotaExceeded
            and newUserId = "JsString ''user_123''"
            and chs = "[Channel ''general'', Channel ''random'']" and j = 0]
       b c
  have third: "fst (addUserToPublicChannels general_full_provider (JsString ''user_123'')
                 idle_world) = Inl QuotaExceeded"
    by simp
  from first second third a b show ?thesis by blast
qed

text \<open>
  Claim C6. \<^verbatim>\<open>upsertStreamUser\<close> and \<^verbatim>\<open>deleteStreamUser\<close> never throw, for every
  input and every answer of the provider. When the provider call fails, the error is
  written to the console and the function returns normally: the upsert with
  \<^verbatim>\<open>undefined\<close> (\<open>None\<close>), the delete with nothing.
\<close>

theorem upsert_delete_never_throw:
  fixes w :: "'z stream_world_scheme"
  shows "(\<exists>v. fst (upsertStreamUser P userData w) = Inr v) \<and>
         fst (deleteStreamUser P userId w) = Inr () \<and>
         (upsertUser P (calls w) userData = Some e \<longrightarrow>
            upsertStreamUser P userData w =
              (Inr None, w\<lparr>calls := calls w @ [UpsertUser userData],
                           console := console w @ [Err ''Error upserting Stream user:'' e]\<rparr>)) \<and>
         (deleteUser P (calls w) userId = Some e' \<longrightarrow>
            deleteStreamUser P userId w =
              (Inr (), w\<lparr>calls := calls w @ [DeleteUser userId],
                         console := console w @ [Err ''Error deleting Stream user:'' e']\<rparr>))"
  by (intro conjI impI upsert_returns delete_returns upsert_failure_logged
      delete_failure_logged)

theorem upsert_delete_never_throw_witness:
  "upsertStreamUser unreachable_provider (UserData ''user_123'' (JsString ''Ada'') JsUndefined)
     idle_world =
     (Inr None, idle_world
        \<lparr>calls := [UpsertUser (UserData ''user_123'' (JsString ''Ada'') JsUndefined)],
         console := [Err ''Error upserting Stream user:'' NetworkError]\<rparr>) \<and>
   deleteStreamUser unreachable_provider (JsString ''user_123'') idle_world =
     (Inr (), idle_world
        \<lparr>calls := [DeleteUser (JsString ''user_123'')],
         console := [Err ''Error deleting Stream user:'' NetworkError]\<rparr>)"
proof -
  have a: "upsertUser unreachable_provider (calls idle_world)
             (UserData ''user_123'' (JsString ''Ada'') JsUndefined) = Some NetworkError"
    by (simp add: unreachable_provider_def)
  have b: "deleteUser unreachable_provider (calls idle_world) (JsString ''user_123'') =
             Some NetworkError"
    by (simp add: unreachable_provider_def)
  from upsert_delete_never_throw
         [of unreachable_provider "UserData ''user_123'' (JsString ''Ada'') JsUndefined"
             idle_world "JsString ''user_123''" NetworkError NetworkError]
       a b
  show ?thesis by (simp add: idle_world_def)
qed

text \<open>
  Claim C7, as the spec has it: for every list of channels the query returns, the
  enrollment issues exactly one add-member call per returned channel. That fails when an
  add-member call fails: the loop stops there. The query returns two channels, the call
  for the first one fails, and the second channel gets no call.
\<close>

theorem enrollment_one_call_per_channel_counterexample:
  "queryChannels general_full_provider (calls idle_world) discoverable =
     Inr [Channel ''general'', Channel ''random''] \<and>
   calls (snd (addUserToPublicChannels general_full_provider (JsString ''user_123'')
     idle_world)) =
     [QueryChannels discoverable, AddMembers (Channel ''general'') [JsString ''user_123'']]"
  by (simp add: addUserToPublicChannels_def client_queryChannels_def channel_addMembers_def
      js_defs general_full_provider_def idle_world_def)

text \<open>
  Claim C7, amended: the enrollment queries the channels with the filter
  \<^verbatim>\<open>{ discoverable: true }\<close> and then issues the add-member calls one by one, each for
  one channel and for the new user alone, in the order the channels were returned. When
  no call fails, that is exactly one call per returned channel, and the function returns
  normally. When a call fails, the calls made are those for the channels up to and
  including the failing one (nothing is undone), and the error is thrown.
\<close>

theorem enrollment_calls_until_first_failure:
  fixes w :: "'z stream_world_scheme"
  assumes "queryChannels P (calls w) discoverable = Inr chs"
  shows "((\<forall>i<length chs.
             addMembers P
               (calls w @ QueryChannels discoverable # add_calls newUserId (take i chs))
               (chs ! i) [newUserId] = None) \<longrightarrow>
            addUserToPublicChannels P newUserId w =
              (Inr (), w\<lparr>calls := calls w @ QueryChannels discoverable #
                                       add_calls newUserId chs\<rparr>)) \<and>
         (j < length chs \<and>
          (\<forall>i<j. addMembers P
                    (calls w @ QueryChannels discoverable # add_calls newUserId (take i chs))
                    (chs ! i) [newUserId] = None) \<and>
          addMembers P (calls w @ QueryChannels discoverable # add_calls newUserId (take j chs))
            (chs ! j) [newUserId] = Some e \<longrightarrow>
            addUserToPublicChannels P newUserId w =
              (Inl e, w\<lparr>calls := calls w @ QueryChannels discoverable #
                                      add_calls newUserId (take (Suc j) chs)\<rparr>))"
proof (intro conjI impI)
  assume "\<forall>i<length chs.
             addMembers P
               (calls w @ QueryChannels discoverable # add_calls newUserId (take i chs))
               (chs ! i) [newUserId] = None"
  with assms show "addUserToPublicChannels P newUserId w =
      (Inr (), w\<lparr>calls := calls w @ QueryChannels discoverable # add_calls newUserId chs\<rparr>)"
    by (rule enrollment_all_ok)
next
  assume "j < length chs \<and>
          (\<forall>i<j. addMembers P
                    (calls w @ QueryChannels discoverable # add_calls newUserId (take i chs))
                    (chs ! i) [newUserId] = None) \<and>
          addMembers P (calls w @ QueryChannels discoverable # add_calls newUserId (take j chs))
            (chs ! j) [newUserId] = Some e"
  with assms show "addUserToPublicChannels P newUserId w =
      (Inl e, w\<lparr>calls := calls w @ QueryChannels discoverable #
                              add_calls newUserId (take (Suc j) chs)\<rparr>)"
    by (intro enrollment_first_failure) simp_all
qed

theorem enrollment_calls_until_first_failure_witness:
  "queryChannels reliable_provider (calls idle_world) discoverable =
     Inr [Channel ''general'', Channel ''random''] \<and>
   addUserToPublicChannels reliable_provider (JsString ''user_123'') idle_world =
     (Inr (), idle_world
        \<lparr>calls := [QueryChannels discoverable,
                   AddMembers (Channel ''general'') [JsString ''user_123''],
                   AddMembers (Channel ''random'') [JsString ''user_123'']]\<rparr>) \<and>
   addUserToPublicChannels general_full_provider (JsString ''user_123'') idle_world =
     (Inl QuotaExceeded, idle_world
        \<lparr>calls := [QueryChannels discoverable,
                   AddMembers (Channel ''general'') [JsString ''user_123'']]\<rparr>)"
proof -
  have a: "queryChannels reliable_provider (calls idle_world) discoverable =
             Inr [Channel ''general'', Channel ''random'']"
    by (simp add: reliable_provider_def)
  have b: "queryChannels general_full_provider (calls idle_world) discoverable =
             Inr [Channel ''general'', Channel ''random'']"
    by (simp add: general_full_provider_def)
  have ok: "\<forall>i<length [Channel ''general'', Channel ''random''].
              addMembers reliable_provider
                (calls idle_world @ QueryChannels discoverable #
                   add_calls (JsString ''user_123'') (take i [Channel ''general'', Channel ''random'']))
                ([Channel ''general'', Channel ''random''] ! i) [JsString ''user_123''] = None"
    by (simp add: reliable_provider_def)
  have bad: "addMembers general_full_provider
               (calls idle_world @ QueryChannels discoverable #
                  add_calls (JsString ''user_123'') (take 0 [Channel ''general'', Channel ''random'']))
               ([Channel ''general'', Channel ''random''] ! 0) [JsString ''user_123''] =
             Some QuotaExceeded"
    by (simp add: general_full_provider_def)
  from enrollment_calls_until_first_failure [OF a, of "JsString ''user_123''" 0 NetworkError] ok
  have first: "addUserToPublicChannels reliable_provider (JsString ''user_123'') idle_world =
     (Inr (), idle_world
        \<lparr>calls := [QueryChannels discoverable,
                   AddMembers (Channel ''general'') [JsString ''user_123''],
                   AddMembers (Channel ''random'') [JsString ''user_123'']]\<rparr>)"
    by (simp add: add_calls_def idle_world_def)
  from enrollment_calls_until_first_failure [OF b, of "JsString ''user_123''" 0 QuotaExceeded] bad
  have second: "addUserToPublicChannels general_full_provider (JsString ''user_123'') idle_world =
     (Inl QuotaExceeded, idle_world
        \<lparr>calls := [QueryChannels discoverable,
                   AddMembers (Channel ''general'') [JsString ''user_123'']]\<rparr>)"
    by (simp add: add_calls_def idle_world_def)
  from a first second show ?thesis by blast
qed

section \<open>The root route and the start of the server\<close>




text \<open>
  Claim C9. A token request changes no state of the program: for every provider,
  request and state, the module's client object and every other part of the state (the
  record's extension) are as before; the provider receives at most the one
  \<^verbatim>\<open>createToken\<close> call; the console receives at most the one error line of
  \<^verbatim>\<open>genrateStreamToken\<close>. When a token is issued, the console is as before: the token
  goes to the response body and nowhere else.
\<close>

theorem getStreamToken_frame:
  fixes w :: "'z handler_world_scheme"
  shows "streamClient (snd (getStreamToken P req w)) = streamClient w \<and>
         handler_world.more (snd (getStreamToken P req w)) = handler_world.more w \<and>
         (\<exists>cs. calls (snd (getStreamToken P req w)) = calls w @ cs \<and>
               (cs = [] \<or> (\<exists>s. cs = [CreateToken s]))) \<and>
         (\<exists>ls. console (snd (getStreamToken P req w)) = console w @ ls \<and>
               (ls = [] \<or> (\<exists>e. ls = [Err ''Error generating Stream token:'' e]))) \<and>
         (auth_userId req = Inr userId \<and> toString userId = Inr s \<and>
          createToken P (calls w) s = Inr t \<longrightarrow>
            console (snd (getStreamToken P req w)) = console w \<and>
            calls (snd (getStreamToken P req w)) = calls w @ [CreateToken s])"
proof (intro conjI impI)
  show "streamClient (snd (getStreamToken P req w)) = streamClient w"
    by (auto simp add: token_defs js_defs auth_userId_def
        split: sum.splits option.splits if_splits)
  show "handler_world.more (snd (getStreamToken P req w)) = handler_world.more w"
    by (auto simp add: token_defs js_defs auth_userId_def
        split: sum.splits option.splits if_splits)
  show "\<exists>cs. calls (snd (getStreamToken P req w)) = calls w @ cs \<and>
             (cs = [] \<or> (\<exists>s. cs = [CreateToken s]))"
    by (auto simp add: token_defs js_defs auth_userId_def
        split: sum.splits option.splits if_splits)
  show "\<exists>ls. console (snd (getStreamToken P req w)) = console w @ ls \<and>
             (ls = [] \<or> (\<exists>e. ls = [Err ''Error generating Stream token:'' e]))"
    by (auto simp add: token_defs js_defs auth_userId_def
        split: sum.splits option.splits if_splits)
next
  assume h: "auth_userId req = Inr userId \<and> toString userId = Inr s \<and>
             createToken P (calls w) s = Inr t"
  then show "console (snd (getStreamToken P req w)) = console w"
    by (simp add: token_defs js_defs)
  from h show "calls (snd (getStreamToken P req w)) = calls w @ [CreateToken s]"
    by (simp add: token_defs js_defs)
qed

theorem getStreamToken_frame_witness:
  "streamClient (snd (getStreamToken reliable_provider user_123_request idle_handler_world)) =
     streamClient idle_handler_world \<and>
   console (snd (getStreamToken reliable_provider user_123_request idle_handler_world)) =
     console idle_handler_world \<and>
   calls (snd (getStreamToken reliable_provider user_123_request idle_handler_world)) =
     [CreateToken ''user_123'']"
proof -
  have a: "auth_userId user_123_request = Inr (JsString ''user_123'') \<and>
           toString (JsString ''user_123'') = Inr ''user_123'' \<and>
           createToken reliable_provider (calls idle_handler_world) ''user_123'' =
             Inr ''tok_user_123''"
    by (simp add: auth_userId_def user_123_request_def reliable_provider_def)
  have b: "calls idle_handler_world = []"
    by (simp add: idle_handler_world_def)
  from getStreamToken_frame
         [of reliable_provider user_123_request idle_handler_world "JsString ''user_123''"
             "''user_123''" "''tok_user_123''"]
       a b
  show ?thesis by simp
qed

text \<open>
  Claim C10. When \<^verbatim>\<open>NODE_ENV\<close> is \<^verbatim>\<open>production\<close>, \<^verbatim>\<open>startServer\<close> does nothing:
  no database connection, no \<^verbatim>\<open>app.listen\<close>, nothing on the console, and it returns
  normally, so no port is bound. For every other value of \<^verbatim>\<open>NODE_ENV\<close> (unset
  included) it first connects to the database and, when both the connection and the
  \<^verbatim>\<open>listen\<close> call succeed, it listens on \<^verbatim>\<open>PORT\<close>.
\<close>

theorem startServer_production_binds_nothing:
  fixes w :: "'z server_world_scheme"
  shows "(NODE_ENV E = Some ''production'' \<longrightarrow> startServer E R w = (Inr (), w)) \<and>
         (NODE_ENV E \<noteq> Some ''production'' \<longrightarrow>
            (\<exists>rest. effects (snd (startServer E R w)) = effects w @ ConnectDB # rest)) \<and>
         (NODE_ENV E \<noteq> Some ''production'' \<and> connectDB R = None \<and>
          listen R (PORT E) = None \<longrightarrow>
            effects (snd (startServer E R w)) = effects w @ [ConnectDB, Listen (PORT E)])"
proof (intro conjI impI)
  assume "NODE_ENV E = Some ''production''"
  then show "startServer E R w = (Inr (), w)"
    by (simp add: startServer_def js_defs)
next
  assume "NODE_ENV E \<noteq> Some ''production''"
  then show "\<exists>rest. effects (snd (startServer E R w)) = effects w @ ConnectDB # rest"
    by (auto simp add: startServer_def app_listen_def perform_def js_defs
        split: sum.splits option.splits)
next
  assume "NODE_ENV E \<noteq> Some ''production'' \<and> connectDB R = None \<and>
          listen R (PORT E) = None"
  then show "effects (snd (startServer E R w)) = effects w @ [ConnectDB, Listen (PORT E)]"
    by (simp add: startServer_def app_listen_def perform_def js_defs)
qed

theorem startServer_production_binds_nothing_witness:
  "startServer production_env healthy_runtime idle_server_world = (Inr (), idle_server_world) \<and>
   effects (snd (startServer development_env healthy_runtime idle_server_world)) =
     [ConnectDB, Listen (Some ''5001'')]"
proof -
  have a: "NODE_ENV production_env = Some ''production''"
    by (simp add: production_env_def)
  have b: "NODE_ENV development_env \<noteq> Some ''production'' \<and>
           connectDB healthy_runtime = None \<and>
           listen healthy_runtime (PORT development_env) = None"
    by (simp add: development_env_def healthy_runtime_def)
  have c: "effects idle_server_world = [] \<and> PORT development_env = Some ''5001''"
    by (simp add: idle_server_world_def development_env_def)
  from startServer_production_binds_nothing [of production_env healthy_runtime idle_server_world]
       startServer_production_binds_nothing [of development_env healthy_runtime idle_server_world]
       a b c
  show ?thesis by simp
qed

end
